theory Spec2Isabelle
  imports Main "HOL-Library.Multiset"
begin

section \<open>Tables\<close>

text \<open>
  The program (\<^verbatim>\<open>src/app.py\<close>) is one function \<^verbatim>\<open>main\<close> that keeps, for every
  uploaded file, a pandas \<^verbatim>\<open>DataFrame\<close> and a dictionary of settings, and reacts to
  check boxes and buttons. A table is modelled by its column labels, its rows and the
  name of its index; a row is its index label and its cells, one per column, in column
  order. Labels may repeat, as in pandas. A column label is a text (every header of a
  CSV file) or a number (a numeric header cell of a spreadsheet read by
  \<^verbatim>\<open>read_excel\<close>). Row labels are integers. The index of a table that has just been
  read has no name; "Set Index" (line 91) gives it the name of the chosen column. A
  cell is a missing value, an integer or a text.
\<close>

datatype cell = NaN | IntV int | StrV string

datatype label = Str string | Num int

record df =
  columns :: "label list"
  rows :: "(int \<times> cell list) list"
  index_name :: "label option"

definition index :: "df \<Rightarrow> int list" where
  "index d = map fst (rows d)"

text \<open>\<^verbatim>\<open>pd.DataFrame()\<close>: no columns, no rows.\<close>

definition DataFrame :: df where
  "DataFrame = \<lparr>columns = [], rows = [], index_name = None\<rparr>"

text \<open>\<^verbatim>\<open>DataFrame.empty\<close>: true when any axis has length 0.\<close>

definition df_empty :: "df \<Rightarrow> bool" where
  "df_empty d = (columns d = [] \<or> rows d = [])"

datatype py_error = KeyError | InvalidIndexError | ValueError | MergeError | AttributeError
  | IndexError | TypeError

text \<open>Python's \<^verbatim>\<open>str\<close> of an integer, of a label and of a cell.\<close>

fun str_of_nat :: "nat \<Rightarrow> string" where
  "str_of_nat n =
     (if n < 10 then [char_of (48 + n)] else str_of_nat (n div 10) @ [char_of (48 + n mod 10)])"

declare str_of_nat.simps [simp del]

definition str_of_int :: "int \<Rightarrow> string" where
  "str_of_int i = (if i < 0 then CHR ''-'' # str_of_nat (nat (- i)) else str_of_nat (nat i))"

definition str_of_label :: "label \<Rightarrow> string" where
  "str_of_label l = (case l of Str s \<Rightarrow> s | Num i \<Rightarrow> str_of_int i)"

definition str_of_cell :: "cell \<Rightarrow> string" where
  "str_of_cell v = (case v of StrV s \<Rightarrow> s | IntV i \<Rightarrow> str_of_int i | NaN \<Rightarrow> ''nan'')"

text \<open>
  \<^verbatim>\<open>sep.join(labels)\<close>: the texts with \<open>sep\<close> between them; \<^verbatim>\<open>TypeError\<close> when a label is
  not a text.
\<close>

definition is_text :: "label \<Rightarrow> bool" where
  "is_text l = (case l of Str _ \<Rightarrow> True | Num _ \<Rightarrow> False)"

fun join_texts :: "string \<Rightarrow> string list \<Rightarrow> string" where
  "join_texts sep [] = []"
| "join_texts sep [x] = x"
| "join_texts sep (x # y # ys) = x @ sep @ join_texts sep (y # ys)"

definition str_join :: "string \<Rightarrow> label list \<Rightarrow> py_error + string" where
  "str_join sep ls =
     (if list_all is_text ls then Inr (join_texts sep (map str_of_label ls)) else Inl TypeError)"

text \<open>
  Selection by a list of labels, as \<^verbatim>\<open>data[names]\<close> and \<^verbatim>\<open>data.loc[keys]\<close> do it: for
  each requested label in turn, every entry that carries it. Removal by labels, as
  \<^verbatim>\<open>data.drop\<close> does it: every entry whose label is listed goes.
\<close>

definition select_labels :: "'a list \<Rightarrow> ('a \<times> 'b) list \<Rightarrow> ('a \<times> 'b) list" where
  "select_labels ls xs = concat (map (\<lambda>l. filter (\<lambda>p. fst p = l) xs) ls)"

definition drop_labels :: "'a list \<Rightarrow> ('a \<times> 'b) list \<Rightarrow> ('a \<times> 'b) list" where
  "drop_labels ls xs = filter (\<lambda>p. fst p \<notin> set ls) xs"

text \<open>
  \<^verbatim>\<open>data[names]\<close> with a list of names: \<^verbatim>\<open>KeyError\<close> when a name is no column;
  otherwise the named columns, in the order of \<open>names\<close>, on the same rows.
\<close>

definition select_cols :: "df \<Rightarrow> label list \<Rightarrow> df" where
  "select_cols d names =
     d\<lparr>columns := map fst (select_labels names (zip (columns d) (columns d))),
       rows := map (\<lambda>r. (fst r, map snd (select_labels names (zip (columns d) (snd r))))) (rows d)\<rparr>"

definition getitem :: "df \<Rightarrow> label list \<Rightarrow> py_error + df" where
  "getitem d names =
     (if set names \<subseteq> set (columns d) then Inr (select_cols d names) else Inl KeyError)"

text \<open>
  \<^verbatim>\<open>data.drop(columns=names)\<close>: \<^verbatim>\<open>KeyError\<close> when a name is no column; otherwise the
  other columns, in their order.
\<close>

definition without_cols :: "df \<Rightarrow> label list \<Rightarrow> df" where
  "without_cols d names =
     d\<lparr>columns := map fst (drop_labels names (zip (columns d) (columns d))),
       rows := map (\<lambda>r. (fst r, map snd (drop_labels names (zip (columns d) (snd r))))) (rows d)\<rparr>"

definition drop_cols :: "df \<Rightarrow> label list \<Rightarrow> py_error + df" where
  "drop_cols d names =
     (if set names \<subseteq> set (columns d) then Inr (without_cols d names) else Inl KeyError)"

text \<open>\<^verbatim>\<open>data.loc[keys]\<close> with a list of row labels: \<^verbatim>\<open>KeyError\<close> when a label is missing.\<close>

definition select_rows :: "df \<Rightarrow> int list \<Rightarrow> df" where
  "select_rows d keys = d\<lparr>rows := select_labels keys (rows d)\<rparr>"

definition loc :: "df \<Rightarrow> int list \<Rightarrow> py_error + df" where
  "loc d keys = (if set keys \<subseteq> set (index d) then Inr (select_rows d keys) else Inl KeyError)"

text \<open>\<^verbatim>\<open>data.drop(index=keys)\<close>: \<^verbatim>\<open>KeyError\<close> when a label is missing.\<close>

definition without_rows :: "df \<Rightarrow> int list \<Rightarrow> df" where
  "without_rows d keys = d\<lparr>rows := drop_labels keys (rows d)\<rparr>"

definition drop_index :: "df \<Rightarrow> int list \<Rightarrow> py_error + df" where
  "drop_index d keys =
     (if set keys \<subseteq> set (index d) then Inr (without_rows d keys) else Inl KeyError)"

text \<open>\<^verbatim>\<open>df.loc[df.index.isin(keys)]\<close>: a boolean mask, so a missing label is no error.\<close>

definition loc_isin :: "df \<Rightarrow> int list \<Rightarrow> df" where
  "loc_isin d keys = d\<lparr>rows := filter (\<lambda>r. fst r \<in> set keys) (rows d)\<rparr>"

text \<open>The cell of a row under a column label (the first such column); missing when absent.\<close>

definition cell_under :: "label \<Rightarrow> label list \<Rightarrow> cell list \<Rightarrow> cell" where
  "cell_under c ns xs = (case map_of (zip ns xs) c of Some v \<Rightarrow> v | None \<Rightarrow> NaN)"

definition column_cells :: "df \<Rightarrow> label \<Rightarrow> cell list" where
  "column_cells d key = map (\<lambda>r. cell_under key (columns d) (snd r)) (rows d)"

text \<open>The name of the index of a concatenation: the common name, if there is one.\<close>

definition common_name :: "df \<Rightarrow> df \<Rightarrow> label option" where
  "common_name a b = (if index_name a = index_name b then index_name a else None)"

text \<open>
  \<^verbatim>\<open>pd.concat([a, b], axis=1)\<close>: the columns of \<open>a\<close>, then those of \<open>b\<close>. With equal
  indexes the rows are joined position by position. Otherwise the rows are aligned on
  their labels (outer join, the labels of \<open>a\<close> first, then the new ones of \<open>b\<close>, absent
  cells missing), which pandas refuses with \<^verbatim>\<open>InvalidIndexError\<close> when an index has a
  repeated label.
\<close>

definition row_or_nan :: "df \<Rightarrow> int \<Rightarrow> cell list" where
  "row_or_nan d k =
     (case map_of (rows d) k of Some cs \<Rightarrow> cs | None \<Rightarrow> replicate (length (columns d)) NaN)"

definition concat_axis1 :: "df \<Rightarrow> df \<Rightarrow> py_error + df" where
  "concat_axis1 a b =
     (if index a = index b
      then Inr \<lparr>columns = columns a @ columns b,
                rows = map2 (\<lambda>r r'. (fst r, snd r @ snd r')) (rows a) (rows b),
                index_name = common_name a b\<rparr>
      else if \<not> distinct (index a) \<or> \<not> distinct (index b) then Inl InvalidIndexError
      else Inr \<lparr>columns = columns a @ columns b,
                rows = map (\<lambda>k. (k, row_or_nan a k @ row_or_nan b k))
                         (index a @ filter (\<lambda>k. k \<notin> set (index a)) (index b)),
                index_name = common_name a b\<rparr>)"

text \<open>
  \<^verbatim>\<open>pd.concat([a, b])\<close>: the rows of \<open>a\<close>, then those of \<open>b\<close>. With equal column lists
  the cells are kept as they are. Otherwise every row is laid out on the union of the
  columns (those of \<open>a\<close> first): under each column the cell the row had under that
  label, or a missing value. pandas refuses this with \<^verbatim>\<open>InvalidIndexError\<close> when a
  column label is repeated.
\<close>

definition reindex_row :: "label list \<Rightarrow> label list \<Rightarrow> int \<times> cell list \<Rightarrow> int \<times> cell list" where
  "reindex_row old new r = (fst r, map (\<lambda>c. cell_under c old (snd r)) new)"

definition concat_axis0 :: "df \<Rightarrow> df \<Rightarrow> py_error + df" where
  "concat_axis0 a b =
     (if columns a = columns b
      then Inr \<lparr>columns = columns a, rows = rows a @ rows b, index_name = common_name a b\<rparr>
      else if \<not> distinct (columns a) \<or> \<not> distinct (columns b) then Inl InvalidIndexError
      else let cs = columns a @ filter (\<lambda>c. c \<notin> set (columns a)) (columns b)
           in Inr \<lparr>columns = cs,
                    rows = map (reindex_row (columns a) cs) (rows a)
                         @ map (reindex_row (columns b) cs) (rows b),
                    index_name = common_name a b\<rparr>)"

text \<open>
  \<^verbatim>\<open>sort_index()\<close>: the rows in ascending order of their labels. pandas sorts with
  its default method (quicksort), which does not fix the order of rows with equal
  labels; here such rows are left in the order they had. No statement below depends on
  the order of rows with equal labels.
\<close>

definition sort_index :: "df \<Rightarrow> df" where
  "sort_index d = d\<lparr>rows := sort_key fst (rows d)\<rparr>"

text \<open>
  The check boxes that change the table before the buttons are reached:
  \<^verbatim>\<open>drop_duplicates()\<close> keeps the first of the rows with the same cells,
  \<^verbatim>\<open>dropna()\<close> removes the rows with a missing cell, \<^verbatim>\<open>fillna(text)\<close> puts the text in
  place of every missing cell, and \<^verbatim>\<open>rename(columns={old: new})\<close> relabels the columns
  \<open>old\<close>; no name is refused, so a label may end up repeated.
\<close>

fun keep_first :: "cell list list \<Rightarrow> (int \<times> cell list) list \<Rightarrow> (int \<times> cell list) list" where
  "keep_first seen [] = []"
| "keep_first seen (r # rs) =
     (if snd r \<in> set seen then keep_first seen rs else r # keep_first (snd r # seen) rs)"

definition drop_duplicates :: "df \<Rightarrow> df" where
  "drop_duplicates d = d\<lparr>rows := keep_first [] (rows d)\<rparr>"

definition dropna :: "df \<Rightarrow> df" where
  "dropna d = d\<lparr>rows := filter (\<lambda>r. NaN \<notin> set (snd r)) (rows d)\<rparr>"

definition fillna :: "string \<Rightarrow> df \<Rightarrow> df" where
  "fillna fill_value d =
     d\<lparr>rows := map (\<lambda>r. (fst r, map (\<lambda>v. if v = NaN then StrV fill_value else v) (snd r)))
                  (rows d)\<rparr>"

definition rename_columns :: "label \<Rightarrow> string \<Rightarrow> df \<Rightarrow> df" where
  "rename_columns column_to_rename new_column_name d =
     d\<lparr>columns := map (\<lambda>c. if c = column_to_rename then Str new_column_name else c) (columns d)\<rparr>"

section \<open>The session of one file and one run of the script\<close>

text \<open>
  \<open>data\<close> is the local variable \<^verbatim>\<open>data\<close> of \<^verbatim>\<open>main\<close>; \<open>stored\<close> is
  \<^verbatim>\<open>st.session_state.datasets[file.name]\<close>; \<open>aliased\<close> says that both are the same
  object, so that a change made in place through \<^verbatim>\<open>data\<close> changes the stored table
  too. The other four fields are the entries of \<^verbatim>\<open>settings\<close>. Only \<open>stored\<close> and the
  settings outlive a run: every run starts by binding \<^verbatim>\<open>data\<close> to the stored table
  (line 45).
\<close>

record session =
  data :: df
  stored :: df
  aliased :: bool
  dropped_columns :: "label list"
  dropped_rows :: "int list"
  dropped_rows_df :: df
  dropped_columns_df :: df

text \<open>The session of a file that has just been loaded (lines 10 and 40 to 46).\<close>

definition new_session :: "df \<Rightarrow> session" where
  "new_session d =
     \<lparr>data = d, stored = d, aliased = True, dropped_columns = [], dropped_rows = [],
      dropped_rows_df = DataFrame, dropped_columns_df = DataFrame\<rparr>"

text \<open>
  A change of the table \<^verbatim>\<open>data\<close> refers to, made in place, and the binding of
  \<^verbatim>\<open>data\<close> to a new table.
\<close>

definition inplace :: "df \<Rightarrow> session \<Rightarrow> session" where
  "inplace d s = s\<lparr>data := d, stored := (if aliased s then d else stored s)\<rparr>"

definition rebind :: "df \<Rightarrow> session \<Rightarrow> session" where
  "rebind d s = s\<lparr>data := d, aliased := False\<rparr>"

text \<open>
  The check boxes of a file, as they stand during a run: "Remove Duplicates" (line 55),
  "Drop Rows with Missing Values" (line 96), "Fill Missing Values" with its text
  (lines 98 to 100) and "Rename Columns" with the chosen column and the new name
  (lines 101 to 110). \<open>idle\<close>: none is ticked.
\<close>

record widgets =
  remove_duplicates :: bool
  drop_missing :: bool
  fill_missing :: "string option"
  rename :: "(label \<times> string) option"

definition idle :: widgets where
  "idle = \<lparr>remove_duplicates = False, drop_missing = False, fill_missing = None, rename = None\<rparr>"

text \<open>
  The part of a run before "Manage Rows/Columns" (lines 45 to 112), when none of the
  buttons of that part is pressed: \<^verbatim>\<open>data\<close> is bound to the stored table; the first
  three check boxes bind it to a new table; the renaming is made in place.
\<close>

definition begin_run :: "widgets \<Rightarrow> session \<Rightarrow> session" where
  "begin_run w s =
     (let s0 = s\<lparr>data := stored s, aliased := True\<rparr>;
          s1 = (if remove_duplicates w then rebind (drop_duplicates (data s0)) s0 else s0);
          s2 = (if drop_missing w then rebind (dropna (data s1)) s1 else s1);
          s3 = (case fill_missing w of
                  None \<Rightarrow> s2
                | Some fill_value \<Rightarrow> rebind (fillna fill_value (data s2)) s2)
      in case rename w of
           None \<Rightarrow> s3
         | Some (column_to_rename, new_column_name) \<Rightarrow>
             if new_column_name \<noteq> []
             then inplace (rename_columns column_to_rename new_column_name (data s3)) s3
             else s3)"

text \<open>
  What a button's block shows when it is done: \<^verbatim>\<open>st.success\<close>, \<^verbatim>\<open>st.warning\<close> (the
  two "No columns to restore." and "No rows to restore." messages), or \<^verbatim>\<open>st.error\<close>
  with the exception its \<^verbatim>\<open>except\<close> clause caught.
\<close>

datatype message = Success | Warning | Error py_error

definition failed :: "message \<Rightarrow> bool" where
  "failed m = (case m of Success \<Rightarrow> False | _ \<Rightarrow> True)"

subsection \<open>Column management (lines 122 to 159)\<close>

text \<open>
  Both blocks end, still inside their \<^verbatim>\<open>try\<close>, with a success message that joins the
  selected labels by \<^verbatim>\<open>', '.join\<close> (lines 132 and 156); the blocks for rows join
  \<^verbatim>\<open>map(str, ...)\<close> instead (lines 175 and 199), which cannot raise.
\<close>

definition drop_selected_columns :: "label list \<Rightarrow> session \<Rightarrow> message \<times> session" where
  "drop_selected_columns drop_columns s =
     (case getitem (data s) drop_columns of
        Inl e \<Rightarrow> (Error e, s)
      | Inr dropped \<Rightarrow>
          let s1 = s\<lparr>dropped_columns_df := dropped\<rparr>
          in (case drop_cols (data s1) drop_columns of
                Inl e \<Rightarrow> (Error e, s1)
              | Inr d \<Rightarrow>
                  let s2 = inplace d s1;
                      s3 = s2\<lparr>dropped_columns := dropped_columns s2 @ drop_columns\<rparr>
                  in (case str_join '', '' drop_columns of
                        Inl e \<Rightarrow> (Error e, s3)
                      | Inr joined \<Rightarrow> (Success, s3))))"

definition restore_selected_columns :: "label list \<Rightarrow> session \<Rightarrow> message \<times> session" where
  "restore_selected_columns restore_columns s =
     (if df_empty (dropped_columns_df s) then (Warning, s)
      else (case getitem (dropped_columns_df s) restore_columns of
              Inl e \<Rightarrow> (Error e, s)
            | Inr restored_columns \<Rightarrow>
                (case concat_axis1 (data s) restored_columns of
                   Inl e \<Rightarrow> (Error e, s)
                 | Inr d \<Rightarrow>
                     let s1 = s\<lparr>data := d, stored := d, aliased := False,
                                 dropped_columns :=
                                   filter (\<lambda>col. col \<notin> set restore_columns) (dropped_columns s)\<rparr>
                     in (case str_join '', '' restore_columns of
                           Inl e \<Rightarrow> (Error e, s1)
                         | Inr joined \<Rightarrow> (Success, s1)))))"

text \<open>The message of a column block whose changes are made: success, unless the join raises.\<close>

definition join_message :: "label list \<Rightarrow> message" where
  "join_message ls = (if list_all is_text ls then Success else Error TypeError)"

subsection \<open>Row management (lines 165 to 202)\<close>

definition drop_selected_rows :: "int list \<Rightarrow> session \<Rightarrow> message \<times> session" where
  "drop_selected_rows drop_rows s =
     (case loc (data s) drop_rows of
        Inl e \<Rightarrow> (Error e, s)
      | Inr dropped \<Rightarrow>
          let s1 = s\<lparr>dropped_rows_df := dropped\<rparr>
          in (case drop_index (data s1) drop_rows of
                Inl e \<Rightarrow> (Error e, s1)
              | Inr d \<Rightarrow>
                  let s2 = inplace d s1
                  in (Success, s2\<lparr>dropped_rows := dropped_rows s2 @ drop_rows\<rparr>)))"

definition restore_selected_rows :: "int list \<Rightarrow> session \<Rightarrow> message \<times> session" where
  "restore_selected_rows restore_rows s =
     (if df_empty (dropped_rows_df s) then (Warning, s)
      else (case concat_axis0 (data s) (loc_isin (dropped_rows_df s) restore_rows) of
              Inl e \<Rightarrow> (Error e, s)
            | Inr d \<Rightarrow>
                (Success,
                 s\<lparr>data := sort_index d, stored := sort_index d, aliased := False,
                   dropped_rows :=
                     filter (\<lambda>row. row \<notin> set restore_rows) (dropped_rows s)\<rparr>)))"

subsection \<open>One run\<close>

text \<open>
  One run of the script for one file in which one of the four buttons of "Manage
  Rows/Columns" is pressed (the buttons of the other parts are then not pressed): the
  part before, then the block of the button.
\<close>

datatype button =
    DropColumns "label list"
  | RestoreColumns "label list"
  | DropRows "int list"
  | RestoreRows "int list"

definition run :: "widgets \<Rightarrow> button \<Rightarrow> session \<Rightarrow> message \<times> session" where
  "run w b s =
     (case b of
        DropColumns names \<Rightarrow> drop_selected_columns names (begin_run w s)
      | RestoreColumns names \<Rightarrow> restore_selected_columns names (begin_run w s)
      | DropRows keys \<Rightarrow> drop_selected_rows keys (begin_run w s)
      | RestoreRows keys \<Rightarrow> restore_selected_rows keys (begin_run w s))"


section \<open>Merge/Join\<close>

text \<open>
  \<^verbatim>\<open>left.merge(right, on=key, how="inner")\<close>, as pandas 2 does it.
  \<^item> pandas looks \<open>key\<close> up among the column labels and the names of the index levels.
    The model covers the tables whose index is not named \<open>key\<close> and gives no result
    (\<open>None\<close>) otherwise.
  \<^item> The key is looked up in \<open>right\<close> first and then in \<open>left\<close>: \<^verbatim>\<open>KeyError\<close> when it is no
    column label, \<^verbatim>\<open>ValueError\<close> when it labels more than one column.
  \<^item> Before it joins, pandas compares the types of the two key columns, and raises
    \<^verbatim>\<open>ValueError\<close> for a column of numbers against a column of texts. A table of the
    model has cells and no column types, so the model covers the merges that the
    cells decide: those where one side has no rows (pandas skips the comparison
    then), and those where both sides have rows and either both key columns hold a
    text (both are then columns of objects) or neither does. It gives no result
    (\<open>None\<close>) for the others.
  \<^item> A column label other than \<open>key\<close> that both tables use gets the suffix \<^verbatim>\<open>_x\<close> on the
    left and \<^verbatim>\<open>_y\<close> on the right; \<^verbatim>\<open>MergeError\<close> when a suffix makes a label repeat that
    did not repeat before.
  \<^item> The result has the columns of \<open>left\<close> and then those of \<open>right\<close> without its key
    column; one row for every pair of a left and a right row with equal key cells (a
    missing key matches a missing key), in the order of the left rows; and a fresh,
    unnamed index \<open>0, 1, \<dots>\<close>.
\<close>

definition is_int :: "cell \<Rightarrow> bool" where
  "is_int v = (case v of IntV _ \<Rightarrow> True | _ \<Rightarrow> False)"

definition is_str :: "cell \<Rightarrow> bool" where
  "is_str v = (case v of StrV _ \<Rightarrow> True | _ \<Rightarrow> False)"










section \<open>Filter\<close>

text \<open>
  "Apply Filter" (lines 227 and 228):
  \<^verbatim>\<open>data = data[data[col_to_filter].astype(str).str.contains(filter_value)]\<close>, with no
  \<^verbatim>\<open>except\<close> clause around it.

  \<^verbatim>\<open>astype(str)\<close> turns every cell into its text: a text stays, an integer is written
  in decimal, a missing value becomes \<^verbatim>\<open>nan\<close>. A column of integers with missing values
  is a column of floats in pandas and prints 1 as \<^verbatim>\<open>1.0\<close>; the printing of floats is not
  modelled, and the model gives no result (\<open>None\<close>) for such a column.
\<close>

definition astype_str :: "cell list \<Rightarrow> string list option" where
  "astype_str vs =
     (if list_ex is_int vs \<and> list_ex (\<lambda>v. v = NaN) vs \<and> \<not> list_ex is_str vs then None
      else Some (map str_of_cell vs))"

text \<open>
  \<^verbatim>\<open>str.contains(pat)\<close> is called without \<^verbatim>\<open>regex=False\<close>, so pandas compiles \<open>pat\<close> as a
  regular expression and keeps the texts in which \<^verbatim>\<open>re.search\<close> finds a match. The
  model covers the patterns made of ordinary characters and the dot: an ordinary
  character matches itself, the dot matches any character but the newline. For a
  pattern with another special character of \<^verbatim>\<open>re\<close> the model gives no result.
\<close>

definition re_special :: "char \<Rightarrow> bool" where
  "re_special c = (c \<in> set (''^$*+?{}[]|()'' @ [CHR 0x5C]))"

fun match_here :: "string \<Rightarrow> string \<Rightarrow> bool" where
  "match_here [] s = True"
| "match_here (p # ps) [] = False"
| "match_here (p # ps) (c # cs) =
     ((if p = CHR ''.'' then c \<noteq> CHR 0x0A else p = c) \<and> match_here ps cs)"

fun re_search :: "string \<Rightarrow> string \<Rightarrow> bool" where
  "re_search pat [] = match_here pat []"
| "re_search pat (c # cs) = (match_here pat (c # cs) \<or> re_search pat cs)"

definition apply_filter :: "label \<Rightarrow> string \<Rightarrow> df \<Rightarrow> (py_error + df) option" where
  "apply_filter col_to_filter filter_value d =
     (if col_to_filter \<notin> set (columns d) then Some (Inl KeyError)
      else if length (filter (\<lambda>n. n = col_to_filter) (columns d)) \<noteq> 1
      then Some (Inl AttributeError)
      else if list_ex re_special filter_value then None
      else (case astype_str (column_cells d col_to_filter) of
              None \<Rightarrow> None
            | Some texts \<Rightarrow>
                Some (Inr (d\<lparr>rows := map fst (filter (\<lambda>p. re_search filter_value (snd p))
                                                 (zip (rows d) texts))\<rparr>))))"

text \<open>
  The words of the specification, for comparison: the text contains the filter string
  as it is written.
\<close>

fun literal_here :: "string \<Rightarrow> string \<Rightarrow> bool" where
  "literal_here [] s = True"
| "literal_here (p # ps) [] = False"
| "literal_here (p # ps) (c # cs) = (p = c \<and> literal_here ps cs)"

fun contains_literal :: "string \<Rightarrow> string \<Rightarrow> bool" where
  "contains_literal pat [] = literal_here pat []"
| "contains_literal pat (c # cs) = (literal_here pat (c # cs) \<or> contains_literal pat cs)"

section \<open>Example tables\<close>

text \<open>The table \<^verbatim>\<open>{id: [1, 2, 3], v: [10, 20, 30]}\<close> with the index 0, 1, 2.\<close>

definition example_table :: df where
  "example_table =
     \<lparr>columns = [Str ''id'', Str ''v''],
      rows = [(0, [IntV 1, IntV 10]), (1, [IntV 2, IntV 20]), (2, [IntV 3, IntV 30])],
      index_name = None\<rparr>"

text \<open>
  A table with two columns and one row, a table with a header and no rows, and a table
  with two rows and no column.
\<close>

definition two_columns :: df where
  "two_columns = \<lparr>columns = [Str ''a'', Str ''b''], rows = [(0, [IntV 1, IntV 2])], index_name = None\<rparr>"

definition header_only :: df where
  "header_only = \<lparr>columns = [Str ''a''], rows = [], index_name = None\<rparr>"

definition no_columns :: df where
  "no_columns = \<lparr>columns = [], rows = [(0, []), (1, [])], index_name = None\<rparr>"

text \<open>A sheet whose header row holds a text and a year, as \<^verbatim>\<open>read_excel\<close> reads it.\<close>

definition yearly :: df where
  "yearly = \<lparr>columns = [Str ''name'', Num 2020], rows = [(0, [StrV ''x'', IntV 5])], index_name = None\<rparr>"




definition codes :: df where
  "codes = \<lparr>columns = [Str ''code''],
            rows = [(0, [StrV ''1.5'']), (1, [StrV ''125'']), (2, [StrV ''15''])], index_name = None\<rparr>"

section \<open>Facts about selection by labels\<close>

lemma fst_drop_zip: "map fst (drop_labels ns (zip xs xs)) = filter (\<lambda>c. c \<notin> set ns) xs"
  unfolding drop_labels_def by (induction xs) auto

lemma fst_select_zip:
  "map fst (select_labels ns (zip xs xs)) = concat (map (\<lambda>a. filter (\<lambda>c. c = a) xs) ns)"
proof -
  have "map fst (filter (\<lambda>p. fst p = a) (zip xs xs)) = filter (\<lambda>c. c = a) xs" for a
    by (induction xs) auto
  then show ?thesis
    unfolding select_labels_def by (simp add: map_concat comp_def)
qed

lemma columns_without_cols: "columns (without_cols d ns) = filter (\<lambda>c. c \<notin> set ns) (columns d)"
  by (simp add: without_cols_def fst_drop_zip)

lemma columns_select_cols:
  "columns (select_cols d ns) = concat (map (\<lambda>a. filter (\<lambda>c. c = a) (columns d)) ns)"
  by (simp add: select_cols_def fst_select_zip)

lemma set_columns_select_cols: "set (columns (select_cols d ns)) = set ns \<inter> set (columns d)"
  by (auto simp: columns_select_cols)

lemma columns_select_cols_Nil:
  "set ns \<subseteq> set (columns d) \<Longrightarrow> columns (select_cols d ns) = [] \<longleftrightarrow> ns = []"
  by (cases ns) (auto simp: columns_select_cols filter_empty_conv)

lemma rows_without_cols_Nil: "rows (without_cols d ns) = [] \<longleftrightarrow> rows d = []"
  by (simp add: without_cols_def)

lemma rows_select_cols_Nil: "rows (select_cols d ns) = [] \<longleftrightarrow> rows d = []"
  by (simp add: select_cols_def)


lemma index_select_rows:
  "set ks \<subseteq> set (index d) \<Longrightarrow> set (index (select_rows d ks)) = set ks"
  by (auto simp: index_def select_rows_def select_labels_def image_iff) force

section \<open>Facts about the runs and the buttons\<close>

lemma begin_run_idle: "begin_run idle s = s\<lparr>data := stored s, aliased := True\<rparr>"
  by (simp add: begin_run_def idle_def)

lemma settings_begin_run:
  "dropped_columns (begin_run w s) = dropped_columns s"
  "dropped_rows (begin_run w s) = dropped_rows s"
  "dropped_columns_df (begin_run w s) = dropped_columns_df s"
  "dropped_rows_df (begin_run w s) = dropped_rows_df s"
  by (simp_all add: begin_run_def Let_def rebind_def inplace_def split: option.splits prod.splits)

lemma drop_selected_columns_ok:
  "set ns \<subseteq> set (columns (data s)) \<Longrightarrow>
   drop_selected_columns ns s =
     (join_message ns,
      s\<lparr>data := without_cols (data s) ns,
        stored := (if aliased s then without_cols (data s) ns else stored s),
        dropped_columns := dropped_columns s @ ns,
        dropped_columns_df := select_cols (data s) ns\<rparr>)"
  by (simp add: drop_selected_columns_def getitem_def drop_cols_def inplace_def Let_def
      str_join_def join_message_def)

lemma drop_selected_columns_err:
  "\<not> set ns \<subseteq> set (columns (data s)) \<Longrightarrow> drop_selected_columns ns s = (Error KeyError, s)"
  by (simp add: drop_selected_columns_def getitem_def)


lemma restore_selected_columns_missing:
  "\<not> df_empty (dropped_columns_df s) \<Longrightarrow> \<not> set ns \<subseteq> set (columns (dropped_columns_df s)) \<Longrightarrow>
   restore_selected_columns ns s = (Error KeyError, s)"
  by (simp add: restore_selected_columns_def getitem_def)


lemma drop_selected_rows_ok:
  "set ks \<subseteq> set (index (data s)) \<Longrightarrow>
   drop_selected_rows ks s =
     (Success, s\<lparr>data := without_rows (data s) ks,
                 stored := (if aliased s then without_rows (data s) ks else stored s),
                 dropped_rows := dropped_rows s @ ks,
                 dropped_rows_df := select_rows (data s) ks\<rparr>)"
  by (simp add: drop_selected_rows_def loc_def drop_index_def inplace_def Let_def
      without_rows_def index_def)

lemma drop_selected_rows_err:
  "\<not> set ks \<subseteq> set (index (data s)) \<Longrightarrow> drop_selected_rows ks s = (Error KeyError, s)"
  by (simp add: drop_selected_rows_def loc_def)



section \<open>Claims about failing operations\<close>

text \<open>
  Claim C6 does not hold of the code. On a sheet whose header holds the year 2020,
  "Drop Selected Columns" for that column stores the column, removes it from the table
  and lists it as dropped, and then the success message fails to join the label
  (line 132, \<^verbatim>\<open>TypeError\<close>): the run reports a column drop error, and the table and the
  edit history are not the ones before the run.
\<close>

theorem failed_drop_has_changed_the_session:
  "fst (run idle (DropColumns [Num 2020]) (new_session yearly)) = Error TypeError \<and>
   failed (fst (run idle (DropColumns [Num 2020]) (new_session yearly))) \<and>
   stored (snd (run idle (DropColumns [Num 2020]) (new_session yearly)))
     = \<lparr>columns = [Str ''name''], rows = [(0, [StrV ''x''])], index_name = None\<rparr> \<and>
   dropped_columns (snd (run idle (DropColumns [Num 2020]) (new_session yearly))) = [Num 2020] \<and>
   dropped_columns_df (snd (run idle (DropColumns [Num 2020]) (new_session yearly)))
     = \<lparr>columns = [Num 2020], rows = [(0, [IntV 5])], index_name = None\<rparr> \<and>
   stored (new_session yearly) = yearly \<and>
   dropped_columns (new_session yearly) = [] \<and>
   dropped_columns_df (new_session yearly) = DataFrame"
  by (simp add: run_def begin_run_idle drop_selected_columns_def getitem_def drop_cols_def
      select_cols_def without_cols_def select_labels_def drop_labels_def inplace_def
      str_join_def is_text_def failed_def new_session_def yearly_def)

section \<open>Claims about dropping and restoring\<close>

text \<open>
  Claim C1 does not hold of the code. On a table with the column \<open>a\<close> and no rows, the
  column is dropped, stored and listed as dropped; the restore of \<open>a\<close> then finds the
  stored table "empty" (line 141: it has a column and no rows), warns "No columns to
  restore." and leaves the table without its column.
\<close>

theorem header_only_column_not_restored:
  "fst (run idle (RestoreColumns [Str ''a''])
          (snd (run idle (DropColumns [Str ''a'']) (new_session header_only)))) = Warning \<and>
   columns (stored (snd (run idle (RestoreColumns [Str ''a''])
          (snd (run idle (DropColumns [Str ''a'']) (new_session header_only)))))) = [] \<and>
   dropped_columns (snd (run idle (DropColumns [Str ''a'']) (new_session header_only))) = [Str ''a''] \<and>
   columns (dropped_columns_df (snd (run idle (DropColumns [Str ''a'']) (new_session header_only))))
     = [Str ''a'']"
  by (simp add: run_def begin_run_idle restore_selected_columns_def drop_selected_columns_def
      getitem_def drop_cols_def select_cols_def without_cols_def select_labels_def drop_labels_def
      inplace_def str_join_def is_text_def new_session_def header_only_def df_empty_def)

text \<open>
  Claim C2 does not hold of the code. On a table with two rows and no column (what is
  left when every column has been dropped), row 0 is dropped, stored and listed as
  dropped; the restore of row 0 then finds the stored table "empty" (line 184: it has a
  row and no columns), warns "No rows to restore." and leaves the table without its
  row.
\<close>

theorem no_columns_row_not_restored:
  "fst (run idle (RestoreRows [0]) (snd (run idle (DropRows [0]) (new_session no_columns)))) = Warning \<and>
   index (stored (snd (run idle (RestoreRows [0])
          (snd (run idle (DropRows [0]) (new_session no_columns)))))) = [1] \<and>
   dropped_rows (snd (run idle (DropRows [0]) (new_session no_columns))) = [0] \<and>
   index (dropped_rows_df (snd (run idle (DropRows [0]) (new_session no_columns)))) = [0] \<and>
   index no_columns = [0, 1]"
  by (simp add: run_def begin_run_idle restore_selected_rows_def drop_selected_rows_def loc_def
      drop_index_def select_rows_def without_rows_def select_labels_def drop_labels_def inplace_def
      new_session_def no_columns_def df_empty_def index_def)


section \<open>Claims about column restoration\<close>





section \<open>Claims about the lists of dropped names and the stored tables\<close>

text \<open>
  Claim C3, as the code has it. Let \<open>t\<close> be the table a run has reached when the button
  is pressed. A successful drop replaces the stored table of dropped columns (rows) by
  the columns (rows) it removes from \<open>t\<close>, with their cells: the stored table holds the
  names (keys) of this drop and nothing of an earlier one, and the names (keys) are
  appended to the list of dropped ones. So names of earlier drops stay listed without
  being stored. A successful restore takes exactly the restored names (keys) off the
  list, leaves the others listed, and does not change the stored table.
\<close>

theorem dropped_lists_and_stored_tables:
  "(fst (run w (DropColumns names) s) = Success \<longrightarrow>
      dropped_columns_df (snd (run w (DropColumns names) s))
        = select_cols (data (begin_run w s)) names \<and>
      set (columns (dropped_columns_df (snd (run w (DropColumns names) s)))) = set names \<and>
      data (snd (run w (DropColumns names) s)) = without_cols (data (begin_run w s)) names \<and>
      dropped_columns (snd (run w (DropColumns names) s)) = dropped_columns s @ names) \<and>
   (fst (run w (RestoreColumns names) s) = Success \<longrightarrow>
      dropped_columns (snd (run w (RestoreColumns names) s))
        = filter (\<lambda>c. c \<notin> set names) (dropped_columns s) \<and>
      dropped_columns_df (snd (run w (RestoreColumns names) s)) = dropped_columns_df s) \<and>
   (fst (run w (DropRows keys) s) = Success \<longrightarrow>
      dropped_rows_df (snd (run w (DropRows keys) s)) = select_rows (data (begin_run w s)) keys \<and>
      set (index (dropped_rows_df (snd (run w (DropRows keys) s)))) = set keys \<and>
      data (snd (run w (DropRows keys) s)) = without_rows (data (begin_run w s)) keys \<and>
      dropped_rows (snd (run w (DropRows keys) s)) = dropped_rows s @ keys) \<and>
   (fst (run w (RestoreRows keys) s) = Success \<longrightarrow>
      dropped_rows (snd (run w (RestoreRows keys) s))
        = filter (\<lambda>k. k \<notin> set keys) (dropped_rows s) \<and>
      dropped_rows_df (snd (run w (RestoreRows keys) s)) = dropped_rows_df s)"
proof -
  define b where "b = begin_run w s"
  have st: "dropped_columns_df b = dropped_columns_df s" "dropped_columns b = dropped_columns s"
    "dropped_rows_df b = dropped_rows_df s" "dropped_rows b = dropped_rows s"
    by (simp_all add: b_def settings_begin_run)
  have r: "run w (DropColumns names) s = drop_selected_columns names b"
    "run w (RestoreColumns names) s = restore_selected_columns names b"
    "run w (DropRows keys) s = drop_selected_rows keys b"
    "run w (RestoreRows keys) s = restore_selected_rows keys b"
    by (simp_all add: run_def b_def)
  have 1: "dropped_columns_df (snd (drop_selected_columns names b)) = select_cols (data b) names \<and>
           set (columns (dropped_columns_df (snd (drop_selected_columns names b)))) = set names \<and>
           data (snd (drop_selected_columns names b)) = without_cols (data b) names \<and>
           dropped_columns (snd (drop_selected_columns names b)) = dropped_columns s @ names"
    if ok: "fst (drop_selected_columns names b) = Success"
  proof -
    have sub: "set names \<subseteq> set (columns (data b))"
      using ok drop_selected_columns_err [of names b]
      by (cases "set names \<subseteq> set (columns (data b))") auto
    show ?thesis
      using sub by (auto simp: drop_selected_columns_ok [OF sub] set_columns_select_cols st)
  qed
  have 2: "dropped_columns (snd (restore_selected_columns names b))
             = filter (\<lambda>c. c \<notin> set names) (dropped_columns s) \<and>
           dropped_columns_df (snd (restore_selected_columns names b)) = dropped_columns_df s"
    if "fst (restore_selected_columns names b) = Success"
    using that st
    by (auto simp: restore_selected_columns_def Let_def split: if_splits sum.splits)
  have 3: "dropped_rows_df (snd (drop_selected_rows keys b)) = select_rows (data b) keys \<and>
           set (index (dropped_rows_df (snd (drop_selected_rows keys b)))) = set keys \<and>
           data (snd (drop_selected_rows keys b)) = without_rows (data b) keys \<and>
           dropped_rows (snd (drop_selected_rows keys b)) = dropped_rows s @ keys"
    if ok: "fst (drop_selected_rows keys b) = Success"
  proof -
    have sub: "set keys \<subseteq> set (index (data b))"
      using ok drop_selected_rows_err [of keys b]
      by (cases "set keys \<subseteq> set (index (data b))") auto
    show ?thesis
      using sub by (simp add: drop_selected_rows_ok [OF sub] index_select_rows st)
  qed
  have 4: "dropped_rows (snd (restore_selected_rows keys b))
             = filter (\<lambda>k. k \<notin> set keys) (dropped_rows s) \<and>
           dropped_rows_df (snd (restore_selected_rows keys b)) = dropped_rows_df s"
    if "fst (restore_selected_rows keys b) = Success"
    using that st
    by (auto simp: restore_selected_rows_def split: if_splits sum.splits)
  show ?thesis
    unfolding r b_def [symmetric] using 1 2 3 4 by blast
qed

theorem dropped_lists_and_stored_tables_witness:
  "dropped_columns_df (snd (run idle (DropColumns [Str ''v'']) (new_session example_table)))
     = \<lparr>columns = [Str ''v''], rows = [(0, [IntV 10]), (1, [IntV 20]), (2, [IntV 30])],
        index_name = None\<rparr> \<and>
   dropped_columns (snd (run idle (DropColumns [Str ''v'']) (new_session example_table))) = [Str ''v''] \<and>
   dropped_columns (snd (run idle (RestoreColumns [Str ''v''])
                          (snd (run idle (DropColumns [Str ''v'']) (new_session example_table))))) = [] \<and>
   dropped_rows_df (snd (run idle (DropRows [1]) (new_session example_table)))
     = \<lparr>columns = [Str ''id'', Str ''v''], rows = [(1, [IntV 2, IntV 20])], index_name = None\<rparr> \<and>
   dropped_rows (snd (run idle (DropRows [1]) (new_session example_table))) = [1] \<and>
   dropped_rows (snd (run idle (RestoreRows [1])
                       (snd (run idle (DropRows [1]) (new_session example_table))))) = []"
proof -
  let ?s = "new_session example_table"
  let ?c = "snd (run idle (DropColumns [Str ''v'']) ?s)"
  let ?r = "snd (run idle (DropRows [1]) ?s)"
  have c: "run idle (DropColumns [Str ''v'']) ?s =
     (Success, \<lparr>data = \<lparr>columns = [Str ''id''], rows = [(0, [IntV 1]), (1, [IntV 2]), (2, [IntV 3])],
                         index_name = None\<rparr>,
                 stored = \<lparr>columns = [Str ''id''], rows = [(0, [IntV 1]), (1, [IntV 2]), (2, [IntV 3])],
                           index_name = None\<rparr>,
                 aliased = True, dropped_columns = [Str ''v''], dropped_rows = [],
                 dropped_rows_df = DataFrame,
                 dropped_columns_df = \<lparr>columns = [Str ''v''],
                    rows = [(0, [IntV 10]), (1, [IntV 20]), (2, [IntV 30])], index_name = None\<rparr>\<rparr>)"
    by (simp add: run_def begin_run_idle drop_selected_columns_def getitem_def drop_cols_def
        select_cols_def without_cols_def select_labels_def drop_labels_def inplace_def
        str_join_def is_text_def new_session_def example_table_def)
  have r: "run idle (DropRows [1]) ?s =
     (Success, \<lparr>data = \<lparr>columns = [Str ''id'', Str ''v''],
                         rows = [(0, [IntV 1, IntV 10]), (2, [IntV 3, IntV 30])], index_name = None\<rparr>,
       stored = \<lparr>columns = [Str ''id'', Str ''v''],
                 rows = [(0, [IntV 1, IntV 10]), (2, [IntV 3, IntV 30])], index_name = None\<rparr>,
       aliased = True, dropped_columns = [], dropped_rows = [1],
       dropped_rows_df = \<lparr>columns = [Str ''id'', Str ''v''], rows = [(1, [IntV 2, IntV 20])],
                           index_name = None\<rparr>,
       dropped_columns_df = DataFrame\<rparr>)"
    by (simp add: run_def begin_run_idle drop_selected_rows_def loc_def drop_index_def
        select_rows_def without_rows_def select_labels_def drop_labels_def inplace_def
        new_session_def example_table_def index_def)
  have rc: "fst (run idle (RestoreColumns [Str ''v'']) ?c) = Success"
    unfolding c
    by (simp add: run_def begin_run_idle restore_selected_columns_def df_empty_def getitem_def
        select_cols_def select_labels_def concat_axis1_def index_def str_join_def is_text_def)
  have rr: "fst (run idle (RestoreRows [1]) ?r) = Success"
    unfolding r
    by (simp add: run_def begin_run_idle restore_selected_rows_def df_empty_def concat_axis0_def
        loc_isin_def)
  have b: "data (begin_run idle ?s) = example_table"
    by (simp add: begin_run_idle new_session_def)
  have sel: "select_cols example_table [Str ''v'']
             = \<lparr>columns = [Str ''v''], rows = [(0, [IntV 10]), (1, [IntV 20]), (2, [IntV 30])],
                index_name = None\<rparr>"
    "select_rows example_table [1]
             = \<lparr>columns = [Str ''id'', Str ''v''], rows = [(1, [IntV 2, IntV 20])], index_name = None\<rparr>"
    by (simp_all add: select_cols_def select_rows_def select_labels_def example_table_def)
  have 1: "fst (run idle (DropColumns [Str ''v'']) ?s) = Success"
    and 2: "fst (run idle (DropRows [1]) ?s) = Success"
    by (simp_all add: c r)
  have dc: "dropped_columns ?c = [Str ''v'']" and dr: "dropped_rows ?r = [1]"
    by (simp_all add: c r)
  show ?thesis
    using dropped_lists_and_stored_tables [of idle "[Str ''v'']" ?s "[1]"]
      dropped_lists_and_stored_tables [of idle "[Str ''v'']" ?c "[1]"]
      dropped_lists_and_stored_tables [of idle "[Str ''v'']" ?r "[1]"] rc rr 1 2 dc dr
    by (simp add: b sel)
qed

text \<open>
  Claim C3 as stated fails: after dropping \<open>a\<close> and then \<open>b\<close>, the name \<open>a\<close> is listed as
  dropped and is no column of the stored table.
\<close>

theorem dropped_name_not_stored_counterexample:
  "Str ''a'' \<in> set (dropped_columns
       (snd (run idle (DropColumns [Str ''b''])
          (snd (run idle (DropColumns [Str ''a'']) (new_session two_columns)))))) \<and>
   Str ''a'' \<notin> set (columns (dropped_columns_df
       (snd (run idle (DropColumns [Str ''b''])
          (snd (run idle (DropColumns [Str ''a'']) (new_session two_columns)))))))"
  by (simp add: run_def begin_run_idle drop_selected_columns_def getitem_def drop_cols_def
      select_cols_def without_cols_def select_labels_def drop_labels_def inplace_def
      str_join_def is_text_def new_session_def two_columns_def)


section \<open>Claims about a restore after a second drop\<close>

text \<open>
  Claim C4, as the code has it. Take three runs with no check box ticked, on a
  table with at least one row: drop the columns \<open>A\<close> (not empty), then drop columns \<open>B\<close>
  (not empty) that are still in the table, then ask for \<open>A\<close> back. The second drop has
  replaced the stored table of dropped columns by the columns \<open>B\<close>, so the lookup of
  \<open>A\<close> in it (line 145) raises \<^verbatim>\<open>KeyError\<close>: the restore reports a column restore
  error, not the "No columns to restore." warning. The session is left as the second
  drop made it: the columns \<open>A\<close> are neither in the table nor in the stored table, and
  their names stay listed as dropped.
\<close>

theorem restore_after_second_drop:
  assumes "A \<noteq> []" and "B \<noteq> []" and "rows (stored s) \<noteq> []"
    and "set A \<subseteq> set (columns (stored s))"
    and "set B \<subseteq> set (columns (stored s)) - set A"
  shows "let s1 = snd (run idle (DropColumns A) s);
             s2 = snd (run idle (DropColumns B) s1);
             r = run idle (RestoreColumns A) s2
         in fst (run idle (DropColumns A) s) = join_message A \<and>
            fst (run idle (DropColumns B) s1) = join_message B \<and>
            dropped_columns_df s2 = select_cols (without_cols (stored s) A) B \<and>
            fst r = Error KeyError \<and>
            snd r = s2 \<and>
            stored s2 = without_cols (without_cols (stored s) A) B \<and>
            data s2 = stored s2 \<and>
            set A \<inter> set (columns (stored s2)) = {} \<and>
            set A \<inter> set (columns (dropped_columns_df s2)) = {} \<and>
            set A \<subseteq> set (dropped_columns s2)"
proof -
  define s1 where "s1 = snd (run idle (DropColumns A) s)"
  define s2 where "s2 = snd (run idle (DropColumns B) s1)"
  define b0 where "b0 = s\<lparr>data := stored s, aliased := True\<rparr>"
  define b1 where "b1 = s1\<lparr>data := stored s1, aliased := True\<rparr>"
  have A0: "set A \<subseteq> set (columns (data b0))"
    using assms(4) by (simp add: b0_def)
  have d1: "run idle (DropColumns A) s =
              (join_message A,
               b0\<lparr>data := without_cols (stored s) A, stored := without_cols (stored s) A,
                  dropped_columns := dropped_columns s @ A,
                  dropped_columns_df := select_cols (stored s) A\<rparr>)"
    using drop_selected_columns_ok [OF A0] by (simp add: run_def begin_run_idle b0_def)
  have st1: "stored s1 = without_cols (stored s) A" and dc1: "dropped_columns s1 = dropped_columns s @ A"
    unfolding s1_def d1 by (simp_all add: b0_def)
  have B1: "set B \<subseteq> set (columns (data b1))"
    using assms(5) by (auto simp: b1_def st1 columns_without_cols)
  have d2: "run idle (DropColumns B) s1 =
              (join_message B,
               b1\<lparr>data := without_cols (stored s1) B, stored := without_cols (stored s1) B,
                  dropped_columns := dropped_columns s1 @ B,
                  dropped_columns_df := select_cols (stored s1) B\<rparr>)"
    using drop_selected_columns_ok [OF B1] by (simp add: run_def begin_run_idle b1_def)
  have st2: "stored s2 = without_cols (stored s1) B" and da2: "data s2 = without_cols (stored s1) B"
    and al2: "aliased s2"
    and snap2: "dropped_columns_df s2 = select_cols (stored s1) B"
    and dc2: "dropped_columns s2 = dropped_columns s1 @ B"
    unfolding s2_def d2 by (simp_all add: b1_def)
  have same: "s2\<lparr>data := stored s2, aliased := True\<rparr> = s2"
    using al2 by (simp add: st2 da2)
  have B1': "set B \<subseteq> set (columns (stored s1))"
    using B1 by (simp add: b1_def)
  have cols_snap: "set (columns (dropped_columns_df s2)) = set B"
    using B1' by (auto simp: snap2 set_columns_select_cols)
  have disj: "set A \<inter> set B = {}"
    using assms(5) by auto
  have notsub: "\<not> set A \<subseteq> set (columns (dropped_columns_df s2))"
    using assms(1) disj unfolding cols_snap by (cases A) auto
  have ne: "\<not> df_empty (dropped_columns_df s2)"
    using columns_select_cols_Nil [OF B1'] assms(2,3)
    by (simp add: df_empty_def snap2 rows_select_cols_Nil st1 rows_without_cols_Nil)
  have r: "run idle (RestoreColumns A) s2 = (Error KeyError, s2)"
    using restore_selected_columns_missing [of s2 A] ne notsub
    by (simp add: run_def begin_run_idle same)
  have "set A \<inter> set (columns (stored s2)) = {}"
    by (auto simp: st2 st1 columns_without_cols)
  moreover have "set A \<inter> set (columns (dropped_columns_df s2)) = {}"
    using disj by (simp add: cols_snap)
  moreover have "set A \<subseteq> set (dropped_columns s2)"
    by (auto simp: dc2 dc1)
  ultimately show ?thesis
    using r d1 d2 snap2 st2 da2
    unfolding Let_def s1_def [symmetric] s2_def [symmetric] by (simp add: st1)
qed

theorem restore_after_second_drop_witness:
  "run idle (RestoreColumns [Str ''a''])
     (snd (run idle (DropColumns [Str ''b''])
        (snd (run idle (DropColumns [Str ''a'']) (new_session two_columns)))))
   = (Error KeyError,
      snd (run idle (DropColumns [Str ''b''])
        (snd (run idle (DropColumns [Str ''a'']) (new_session two_columns)))))"
proof -
  have "[Str ''a''] \<noteq> []" and "[Str ''b''] \<noteq> []" and "rows (stored (new_session two_columns)) \<noteq> []"
    and "set [Str ''a''] \<subseteq> set (columns (stored (new_session two_columns)))"
    and "set [Str ''b''] \<subseteq> set (columns (stored (new_session two_columns))) - set [Str ''a'']"
    by (simp_all add: new_session_def two_columns_def)
  from restore_after_second_drop [OF this]
  have "fst (run idle (RestoreColumns [Str ''a''])
     (snd (run idle (DropColumns [Str ''b''])
        (snd (run idle (DropColumns [Str ''a'']) (new_session two_columns)))))) = Error KeyError
     \<and> snd (run idle (RestoreColumns [Str ''a''])
     (snd (run idle (DropColumns [Str ''b''])
        (snd (run idle (DropColumns [Str ''a'']) (new_session two_columns))))))
     = snd (run idle (DropColumns [Str ''b''])
        (snd (run idle (DropColumns [Str ''a'']) (new_session two_columns))))"
    unfolding Let_def by blast
  then show ?thesis
    by (metis prod.collapse)
qed

text \<open>
  Claim C4 as stated fails: on a table with the columns \<open>a\<close> and \<open>b\<close> and one row, the
  restore of \<open>a\<close> after the drops of \<open>a\<close> and of \<open>b\<close> ends in the \<^verbatim>\<open>KeyError\<close> branch, not
  in the "No columns to restore." warning.
\<close>

theorem restore_after_second_drop_counterexample:
  "fst (run idle (RestoreColumns [Str ''a''])
     (snd (run idle (DropColumns [Str ''b''])
        (snd (run idle (DropColumns [Str ''a'']) (new_session two_columns))))))
   = Error KeyError"
  by (simp add: run_def begin_run_idle restore_selected_columns_def drop_selected_columns_def
      getitem_def drop_cols_def select_cols_def without_cols_def select_labels_def drop_labels_def
      inplace_def str_join_def is_text_def new_session_def two_columns_def df_empty_def)


section \<open>Claims about the restoration of rows\<close>






section \<open>Facts about Merge/Join\<close>























section \<open>Claims about Merge/Join\<close>





section \<open>Claims about Filter\<close>

text \<open>
  Claim C8 does not hold of the code: the filter string is read as a pattern. On the
  table of codes, the filter \<open>1.5\<close> keeps the row \<open>125\<close>, which does not contain the
  text \<open>1.5\<close>.
\<close>

theorem filter_reads_pattern:
  "apply_filter (Str ''code'') ''1.5'' codes =
     Some (Inr \<lparr>columns = [Str ''code''], rows = [(0, [StrV ''1.5'']), (1, [StrV ''125''])],
                index_name = None\<rparr>) \<and>
   \<not> contains_literal ''1.5'' ''125''"
  by (simp add: apply_filter_def codes_def re_special_def astype_str_def column_cells_def
      cell_under_def str_of_cell_def is_int_def is_str_def)

end
